theory Spec2Isabelle
  imports Main
begin

section \<open>Schemas of the deployment driver (main.go)\<close>

text \<open>
  The driver is one Go file, \<^verbatim>\<open>deployment-drivers/go/http/main.go\<close>: four HTTP handlers
  on a \<^verbatim>\<open>siteServer\<close> and the start-up code in \<^verbatim>\<open>main\<close>. Every struct of the file is a
  record with the Go field names; a pointer field that may be nil is an \<open>option\<close>.
\<close>

definition pulumiURL :: string where
  "pulumiURL = ''https://api.pat.pulumi-dev.io/api''"

record gitContext =
  Branch :: string
  RepoDir :: string

record sourceContext =
  Git :: gitContext

record awsOIDCContext =
  RoleARN :: string
  SessionName :: string

record oidcContext =
  AWS :: "awsOIDCContext option"

record operationContext =
  Environment :: "string \<rightharpoonup> string"
  OIDC :: "oidcContext option"

record gitHubContext =
  Repository :: string
  Paths :: "string list"
  DeployCommits :: bool
  PreviewPullRequests :: bool

record DeploymentSettings =
  SourceContext :: "sourceContext option"
  OperationContext :: "operationContext option"
  GitHub :: "gitHubContext option"

text \<open>\<^verbatim>\<open>createDeploymentRequest\<close> embeds \<^verbatim>\<open>DeploymentSettings\<close>: a record extension.\<close>

record createDeploymentRequest = DeploymentSettings +
  InheritSettings :: bool
  Operation :: string

record createStackRequest =
  StackName :: string

record operationStatus =
  Kind :: string
  Author :: string
  Started :: int

record getStackResponse =
  CurrentOperation :: "operationStatus option"

record organizationSummary =
  GitHubLogin :: string

record getUserResponse =
  Organizations :: "organizationSummary list"

record updateSiteRequest =
  Content :: string

record createSiteRequest =
  ID :: string
  Content :: string

record getSiteResponse =
  ID :: string
  URL :: string
  Status :: string

subsection \<open>The part of apitype the handlers read\<close>

text \<open>
  A value that \<^verbatim>\<open>encoding/json\<close> stores in an \<^verbatim>\<open>interface{}\<close>: nil, bool, float64, string,
  \<^verbatim>\<open>[]interface{}\<close> or \<^verbatim>\<open>map[string]interface{}\<close>. The handlers never compute with a
  float64, so the type is only declared.
\<close>

typedecl float64

datatype jvalue =
    JNull
  | JBool bool
  | JNumber float64
  | JString string
  | JArray "jvalue list"
  | JObject "(string \<times> jvalue) list"

text \<open>
  Of \<^verbatim>\<open>apitype.ResourceV3\<close> the code reads \<^verbatim>\<open>Type\<close> and \<^verbatim>\<open>Outputs\<close> only. A Go map is a
  partial function; a nil map reads like the empty one.
\<close>

record ResourceV3 =
  Type :: string
  Outputs :: "string \<rightharpoonup> jvalue"

record DeploymentV3 =
  Resources :: "ResourceV3 list"

record UntypedDeployment =
  Version :: int
  Deployment :: string

text \<open>
  The schema version of apitype that \<^verbatim>\<open>DeploymentV3\<close> belongs to. The results below do
  not depend on its value; only the concrete runs do.
\<close>

definition DeploymentSchemaVersionCurrent :: int where
  "DeploymentSchemaVersionCurrent = 3"

section \<open>The libraries the handlers call\<close>

text \<open>
  \<^verbatim>\<open>encoding/json\<close> and \<^verbatim>\<open>path\<close> are not part of the repository. Their functions are
  parameters of every handler: one decoder for each type the code decodes into (\<open>Inl\<close> the
  decoding error's message) and \<^verbatim>\<open>path.Join\<close>.
\<close>

record stdlib =
  json_createSiteRequest :: "string \<Rightarrow> string + createSiteRequest"
  json_updateSiteRequest :: "string \<Rightarrow> string + updateSiteRequest"
  json_getStackResponse :: "string \<Rightarrow> string + getStackResponse"
  json_UntypedDeployment :: "string \<Rightarrow> string + UntypedDeployment"
  json_DeploymentV3 :: "string \<Rightarrow> string + DeploymentV3"
  json_getUserResponse :: "string \<Rightarrow> string + getUserResponse"
  path_Join :: "string list \<Rightarrow> string"

text \<open>
  An outbound request, as the resty builder chain assembles it. The request context only
  carries cancellation and is left out.
\<close>

datatype payload =
    NoBody
  | StackBody createStackRequest
  | SettingsBody DeploymentSettings
  | DeploymentBody createDeploymentRequest

record outbound =
  Method :: string
  Target :: string
  Header :: "(string \<times> string) list"
  Payload :: payload
  DoNotParseResponse :: bool

text \<open>
  What the code reads of a \<^verbatim>\<open>resty.Response\<close>: \<^verbatim>\<open>StatusCode()\<close>, the buffered \<^verbatim>\<open>Body()\<close> and
  the stream \<^verbatim>\<open>RawBody()\<close>.
\<close>

record response =
  StatusCode :: int
  Body :: string
  RawBody :: string

text \<open>
  The remote API is a black box: its answer to a request may depend on that request and on
  every request the handler has sent before. \<open>Inl\<close> is a transport error.
\<close>

type_synonym client = "outbound list \<Rightarrow> outbound \<Rightarrow> string + response"

section \<open>What a handler does to the outside\<close>

text \<open>
  \<open>code\<close> is the status line of the \<^verbatim>\<open>http.ResponseWriter\<close> (\<open>None\<close> until it is written),
  \<open>out\<close> the body written so far, \<open>logged\<close> the lines given to \<^verbatim>\<open>log.Printf\<close> and \<open>sent\<close>
  the outbound requests in the order they were issued. Writes to the response are taken
  to succeed.
\<close>

datatype chunk =
    Text string
  | JSON "(string \<times> string) list"

record exchange =
  code :: "int option"
  out :: "chunk list"
  logged :: "string list"
  sent :: "outbound list"

definition fresh :: exchange where
  "fresh = \<lparr>code = None, out = [], logged = [], sent = []\<rparr>"

definition WriteHeader :: "int \<Rightarrow> exchange \<Rightarrow> exchange" where
  "WriteHeader c st = (if code st = None then st\<lparr>code := Some c\<rparr> else st)"

text \<open>The first write without a status line sends 200, as \<^verbatim>\<open>net/http\<close> does.\<close>

definition Write :: "chunk \<Rightarrow> exchange \<Rightarrow> exchange" where
  "Write x st = (WriteHeader 200 st)\<lparr>out := out st @ [x]\<rparr>"

definition Printf :: "string \<Rightarrow> exchange \<Rightarrow> exchange" where
  "Printf line st = st\<lparr>logged := logged st @ [line]\<rparr>"

definition execute :: "client \<Rightarrow> outbound \<Rightarrow> exchange \<Rightarrow> (string + response) \<times> exchange" where
  "execute cl req st = (cl (sent st) req, st\<lparr>sent := sent st @ [req]\<rparr>)"

text \<open>
  \<^verbatim>\<open>json.NewEncoder(w).Encode\<close> of a \<^verbatim>\<open>getSiteResponse\<close>: the object's members in field
  order; \<^verbatim>\<open>url\<close> and \<^verbatim>\<open>status\<close> are tagged \<^verbatim>\<open>omitempty\<close>.
\<close>

definition Encode :: "getSiteResponse \<Rightarrow> (string \<times> string) list" where
  "Encode r =
     [(''id'', getSiteResponse.ID r)]
     @ (if URL r = [] then [] else [(''url'', URL r)])
     @ (if Status r = [] then [] else [(''status'', Status r)])"

definition internalServerError :: "string \<Rightarrow> exchange \<Rightarrow> exchange" where
  "internalServerError err st =
     Printf (''Internal Server Error: '' @ err)
       (Write (Text ''Internal Server Error'') (WriteHeader 500 st))"

section \<open>The site server\<close>

record siteServer =
  repository :: string
  branch :: string
  dir :: string
  roleARN :: string
  sessionName :: string
  apiToken :: string
  org :: string
  project :: string

definition auth :: "string \<Rightarrow> (string \<times> string) list" where
  "auth tok = [(''Authorization'', ''token '' @ tok), (''Accept'', ''application/json'')]"

subsection \<open>The outbound requests\<close>

text \<open>
  Each resty builder chain of the file, under a name: method, URL, the two headers, the
  body given to \<^verbatim>\<open>SetBody\<close> and whether \<^verbatim>\<open>SetDoNotParseResponse(true)\<close> is set. The
  handlers below pass these to \<open>execute\<close> where the source ends the chain with
  \<^verbatim>\<open>Post\<close> or \<^verbatim>\<open>Get\<close>.
\<close>

text \<open>\<^verbatim>\<open>create\<close>, first request: register the stack.\<close>

definition stack_call :: "stdlib \<Rightarrow> siteServer \<Rightarrow> string \<Rightarrow> outbound" where
  "stack_call lib s stack =
     \<lparr>Method = ''POST'',
      Target = pulumiURL @ path_Join lib [''/stacks'', org s, project s],
      Header = auth (apiToken s),
      Payload = StackBody \<lparr>StackName = stack\<rparr>,
      DoNotParseResponse = False\<rparr>"

text \<open>\<^verbatim>\<open>create\<close>, second request: the deployment settings.\<close>

definition settings_call :: "stdlib \<Rightarrow> siteServer \<Rightarrow> string \<Rightarrow> outbound" where
  "settings_call lib s stack =
     (let paths = (if dir s \<noteq> [] then [dir s @ ''/**''] else []);
          settings =
            \<lparr>SourceContext = Some \<lparr>Git = \<lparr>Branch = branch s, RepoDir = dir s\<rparr>\<rparr>,
             OperationContext = Some
               \<lparr>Environment = [''AWS_REGION'' \<mapsto> ''us-west-2''],
                OIDC = Some \<lparr>AWS = Some \<lparr>RoleARN = roleARN s,
                                          SessionName = sessionName s\<rparr>\<rparr>\<rparr>,
             GitHub = Some
               \<lparr>Repository = repository s,
                Paths = paths,
                DeployCommits = True,
                PreviewPullRequests = False\<rparr>\<rparr>
      in \<lparr>Method = ''POST'',
          Target = pulumiURL @ path_Join lib
            [''/preview'', org s, project s, stack, ''deployment'', ''settings''],
          Header = auth (apiToken s),
          Payload = SettingsBody settings,
          DoNotParseResponse = False\<rparr>)"

text \<open>\<^verbatim>\<open>updateStack\<close>: start an update that inherits the stored settings.\<close>

definition update_call :: "stdlib \<Rightarrow> siteServer \<Rightarrow> string \<Rightarrow> string \<Rightarrow> outbound" where
  "update_call lib s stack content =
     \<lparr>Method = ''POST'',
      Target = pulumiURL @ path_Join lib [''/preview'', org s, project s, stack, ''deployments''],
      Header = auth (apiToken s),
      Payload = DeploymentBody
        \<lparr>SourceContext = None,
         OperationContext = Some \<lparr>Environment = [''SITE_CONTENT'' \<mapsto> content], OIDC = None\<rparr>,
         GitHub = None,
         InheritSettings = True,
         Operation = ''update''\<rparr>,
      DoNotParseResponse = False\<rparr>"

text \<open>\<^verbatim>\<open>delete\<close>: start a destroy.\<close>

definition destroy_call :: "stdlib \<Rightarrow> siteServer \<Rightarrow> string \<Rightarrow> outbound" where
  "destroy_call lib s stack =
     \<lparr>Method = ''POST'',
      Target = pulumiURL @ path_Join lib [''/preview'', org s, project s, stack, ''deployments''],
      Header = auth (apiToken s),
      Payload = DeploymentBody
        \<lparr>SourceContext = None, OperationContext = None, GitHub = None,
         InheritSettings = True, Operation = ''destroy''\<rparr>,
      DoNotParseResponse = False\<rparr>"

text \<open>\<^verbatim>\<open>get\<close>: the stack, then its export.\<close>

definition stack_query :: "stdlib \<Rightarrow> siteServer \<Rightarrow> string \<Rightarrow> outbound" where
  "stack_query lib s stack =
     \<lparr>Method = ''GET'',
      Target = pulumiURL @ path_Join lib [''/stacks'', org s, project s, stack],
      Header = auth (apiToken s),
      Payload = NoBody,
      DoNotParseResponse = True\<rparr>"

definition export_query :: "stdlib \<Rightarrow> siteServer \<Rightarrow> string \<Rightarrow> outbound" where
  "export_query lib s stack =
     \<lparr>Method = ''GET'',
      Target = pulumiURL @ path_Join lib [''/stacks'', org s, project s, stack, ''export''],
      Header = auth (apiToken s),
      Payload = NoBody,
      DoNotParseResponse = True\<rparr>"

text \<open>\<^verbatim>\<open>main\<close>: the current user.\<close>

definition user_query :: "string \<Rightarrow> outbound" where
  "user_query tok =
     \<lparr>Method = ''GET'',
      Target = pulumiURL @ ''/user'',
      Header = auth tok,
      Payload = NoBody,
      DoNotParseResponse = True\<rparr>"

subsection \<open>The handlers\<close>

definition updateStack ::
  "stdlib \<Rightarrow> client \<Rightarrow> siteServer \<Rightarrow> string \<Rightarrow> string \<Rightarrow> exchange \<Rightarrow> string option \<times> exchange"
where
  "updateStack lib cl s stack content st =
     (let (res, st) = execute cl (update_call lib s stack content) st
      in (case res of
            Inl err \<Rightarrow> (Some err, st)
          | Inr resp \<Rightarrow>
              if StatusCode resp \<noteq> 202 then (Some (Body resp), st) else (None, st)))"

definition create :: "stdlib \<Rightarrow> client \<Rightarrow> siteServer \<Rightarrow> string \<Rightarrow> exchange \<Rightarrow> exchange" where
  "create lib cl s body st =
     (case json_createSiteRequest lib body of
        Inl err \<Rightarrow> Write (Text ''failed to parse create request'') (WriteHeader 400 st)
      | Inr create \<Rightarrow>
         (let stack = createSiteRequest.ID create;
              (res, st) = execute cl (stack_call lib s stack) st
          in (case res of
                Inl err \<Rightarrow> internalServerError (''creating stack: '' @ err) st
              | Inr resp \<Rightarrow>
                  if StatusCode resp \<noteq> 200 \<and> StatusCode resp \<noteq> 409
                  then internalServerError (''creating stack: '' @ Body resp) st
                  else
                   (let st = Printf (''created stack '' @ [CHR 0x27] @ org s @ ''/'' @ project s
                                       @ ''/'' @ stack @ [CHR 0x27]) st;
                        (res, st) = execute cl (settings_call lib s stack) st
                    in (case res of
                          Inl err \<Rightarrow> internalServerError (''configuring deployment: '' @ err) st
                        | Inr resp \<Rightarrow>
                            if StatusCode resp \<noteq> 200
                            then internalServerError (''configuring deployment: '' @ Body resp) st
                            else
                             (case updateStack lib cl s stack (createSiteRequest.Content create) st of
                                (Some err, st) \<Rightarrow>
                                  internalServerError (''starting deployment: '' @ err) st
                              | (None, st) \<Rightarrow>
                                  Write (JSON (Encode \<lparr>ID = stack, URL = [], Status = []\<rparr>))
                                    (WriteHeader 202 st)))))))"

text \<open>
  The two anonymous functions of \<^verbatim>\<open>get\<close>. The loop over \<^verbatim>\<open>stack.Resources\<close> stops at the
  first resource whose type is the root stack's.
\<close>

fun stackResource :: "ResourceV3 list \<Rightarrow> ResourceV3 option" where
  "stackResource [] = None"
| "stackResource (r # rs) =
     (if Type r = ''pulumi:pulumi:Stack'' then Some r else stackResource rs)"

definition get_operation ::
  "stdlib \<Rightarrow> client \<Rightarrow> siteServer \<Rightarrow> string \<Rightarrow> exchange
     \<Rightarrow> (string + operationStatus option) \<times> exchange"
where
  "get_operation lib cl s id' st =
     (let (res, st) = execute cl (stack_query lib s id') st
      in (case res of
            Inl err \<Rightarrow> (Inl err, st)
          | Inr resp \<Rightarrow>
              if StatusCode resp \<noteq> 200 then (Inl (Body resp), st)
              else
                (case json_getStackResponse lib (RawBody resp) of
                   Inl err \<Rightarrow> (Inl err, st)
                 | Inr respBody \<Rightarrow> (Inr (CurrentOperation respBody), st))))"

definition get_outputs ::
  "stdlib \<Rightarrow> client \<Rightarrow> siteServer \<Rightarrow> string \<Rightarrow> exchange
     \<Rightarrow> (string + (string \<rightharpoonup> jvalue)) \<times> exchange"
where
  "get_outputs lib cl s id' st =
     (let (res, st) = execute cl (export_query lib s id') st
      in (case res of
            Inl err \<Rightarrow> (Inl err, st)
          | Inr resp \<Rightarrow>
              if StatusCode resp \<noteq> 200 then (Inl (Body resp), st)
              else
                (case json_UntypedDeployment lib (RawBody resp) of
                   Inl err \<Rightarrow> (Inl err, st)
                 | Inr respBody \<Rightarrow>
                     if Version respBody \<noteq> DeploymentSchemaVersionCurrent
                     then (Inr Map.empty, st)
                     else
                       (case json_DeploymentV3 lib (Deployment respBody) of
                          Inl err \<Rightarrow> (Inl (''unmarshaling deployment: '' @ err), st)
                        | Inr stack \<Rightarrow>
                            (case stackResource (Resources stack) of
                               None \<Rightarrow> (Inr Map.empty, st)
                             | Some r \<Rightarrow> (Inr (Outputs r), st))))))"

text \<open>
  \<^verbatim>\<open>url, _ := outputs["websiteUrl"].(string)\<close>: the two-result form of the type assertion
  gives the zero value when the key is missing or the value has another type.
\<close>

definition websiteUrl :: "(string \<rightharpoonup> jvalue) \<Rightarrow> string" where
  "websiteUrl outputs = (case outputs ''websiteUrl'' of Some (JString u) \<Rightarrow> u | _ \<Rightarrow> [])"

definition get :: "stdlib \<Rightarrow> client \<Rightarrow> siteServer \<Rightarrow> string \<Rightarrow> exchange \<Rightarrow> exchange" where
  "get lib cl s id' st =
     (case get_operation lib cl s id' st of
        (Inl err, st) \<Rightarrow> internalServerError (''getting stack: '' @ err) st
      | (Inr operation, st) \<Rightarrow>
         (let status =
                (case operation of
                   None \<Rightarrow> ''IDLE''
                 | Some op \<Rightarrow> if Kind op = ''destroy'' then ''DELETING'' else ''UPDATING'')
          in (case get_outputs lib cl s id' st of
                (Inl err, st) \<Rightarrow> internalServerError (''getting stack outputs: '' @ err) st
              | (Inr outputs, st) \<Rightarrow>
                  Write (JSON (Encode \<lparr>ID = id', URL = websiteUrl outputs, Status = status\<rparr>))
                    st)))"

definition update :: "stdlib \<Rightarrow> client \<Rightarrow> siteServer \<Rightarrow> string \<Rightarrow> string \<Rightarrow> exchange \<Rightarrow> exchange" where
  "update lib cl s id' body st =
     (case json_updateSiteRequest lib body of
        Inl err \<Rightarrow> Write (Text ''failed to parse update request'') (WriteHeader 400 st)
      | Inr update \<Rightarrow>
         (case updateStack lib cl s id' (updateSiteRequest.Content update) st of
            (Some err, st) \<Rightarrow> internalServerError (''starting deployment: '' @ err) st
          | (None, st) \<Rightarrow> WriteHeader 202 st))"

definition delete :: "stdlib \<Rightarrow> client \<Rightarrow> siteServer \<Rightarrow> string \<Rightarrow> exchange \<Rightarrow> exchange" where
  "delete lib cl s id' st =
     (let (res, st) = execute cl (destroy_call lib s id') st
      in (case res of
            Inl err \<Rightarrow> internalServerError (''starting deployment: '' @ err) st
          | Inr resp \<Rightarrow>
              if StatusCode resp \<noteq> 202
              then internalServerError (''starting deployment: '' @ Body resp) st
              else WriteHeader 202 st))"

section \<open>Start-up\<close>

text \<open>The values of the command-line flags after \<^verbatim>\<open>flag.Parse\<close>.\<close>

record flags =
  flag_repo :: string
  flag_branch :: string
  flag_dir :: string
  flag_role_arn :: string
  flag_session_name :: string
  flag_token :: string
  flag_org :: string
  flag_project :: string
  flag_addr :: string

text \<open>\<^verbatim>\<open>%v\<close> of an int: its decimal digits.\<close>

fun digits :: "nat \<Rightarrow> string" where
  "digits n = (if n < 10 then [char_of (48 + n)] else digits (n div 10) @ [char_of (48 + n mod 10)])"

declare digits.simps [simp del]

definition Itoa :: "int \<Rightarrow> string" where
  "Itoa i = (if i < 0 then ''-'' @ digits (nat (- i)) else digits (nat i))"

text \<open>A Go function either returns or panics; a panic that nothing recovers ends the process.\<close>

datatype 'a outcome = Returns 'a | Panics string

text \<open>
  The anonymous function of \<^verbatim>\<open>main\<close> that asks the API for the user's organizations.
  Indexing an empty slice at 0 is a run-time panic.
\<close>

definition defaultOrg :: "stdlib \<Rightarrow> client \<Rightarrow> string \<Rightarrow> (string + string) outcome" where
  "defaultOrg lib cl tok =
     (case cl [] (user_query tok) of
        Inl err \<Rightarrow> Returns (Inl err)
      | Inr resp \<Rightarrow>
          if StatusCode resp \<noteq> 200
          then Returns (Inl (Itoa (StatusCode resp) @ '': '' @ Body resp))
          else
            (case json_getUserResponse lib (RawBody resp) of
               Inl err \<Rightarrow> Returns (Inl (''decoding response: '' @ err))
             | Inr body \<Rightarrow>
                 (case Organizations body of
                    [] \<Rightarrow> Panics ''runtime error: index out of range [0] with length 0''
                  | first # _ \<Rightarrow> Returns (Inr (GitHubLogin first)))))"

text \<open>
  How \<^verbatim>\<open>main\<close> ends: \<^verbatim>\<open>log.Fatal\<close> with a message, an unrecovered panic, or the call of
  \<^verbatim>\<open>http.ListenAndServe\<close> on an address with the routes of a server.
\<close>

datatype exit =
    Fatal string
  | Crash string
  | ListenAndServe string siteServer

definition server_of :: "flags \<Rightarrow> string \<Rightarrow> siteServer" where
  "server_of fl organization =
     \<lparr>repository = flag_repo fl,
      branch = flag_branch fl,
      dir = flag_dir fl,
      roleARN = flag_role_arn fl,
      sessionName = flag_session_name fl,
      apiToken = flag_token fl,
      org = organization,
      project = flag_project fl\<rparr>"

definition main :: "stdlib \<Rightarrow> client \<Rightarrow> flags \<Rightarrow> exit" where
  "main lib cl fl =
     (if flag_repo fl = [] then Fatal ''the -repo flag is required''
      else if flag_role_arn fl = [] then Fatal ''the -role-arn flag is required''
      else if flag_token fl = [] then Fatal ''the -token flag is required''
      else if flag_project fl = [] then Fatal ''the -project flag is required''
      else if flag_org fl = [] then
        (case defaultOrg lib cl (flag_token fl) of
           Panics msg \<Rightarrow> Crash msg
         | Returns (Inl err) \<Rightarrow> Fatal (''getting default organization: '' @ err)
         | Returns (Inr d) \<Rightarrow> ListenAndServe (flag_addr fl) (server_of fl d))
      else ListenAndServe (flag_addr fl) (server_of fl (flag_org fl)))"

section \<open>Vocabulary of the statements\<close>

text \<open>
  A step of a handler is refused when the transport fails or the status is none of those
  the step accepts. A failed request always ends in the same response: status 500 and the
  fixed text, with the detail only in the log.
\<close>

abbreviation refused :: "int set \<Rightarrow> string + response \<Rightarrow> bool" where
  "refused accepted res \<equiv>
     (case res of Inl err \<Rightarrow> True | Inr resp \<Rightarrow> StatusCode resp \<notin> accepted)"

abbreviation failure :: "string list \<Rightarrow> outbound list \<Rightarrow> exchange" where
  "failure lines reqs \<equiv>
     \<lparr>code = Some 500, out = [Text ''Internal Server Error''], logged = lines, sent = reqs\<rparr>"

abbreviation created_line :: "siteServer \<Rightarrow> string \<Rightarrow> string" where
  "created_line s stack \<equiv>
     ''created stack '' @ [CHR 0x27] @ org s @ ''/'' @ project s @ ''/'' @ stack @ [CHR 0x27]"

section \<open>A concrete library and concrete remotes\<close>

text \<open>
  To run the handlers on concrete inputs: a decoder that knows a few JSON texts and
  rejects every other body, a join of clean path elements, and remotes that answer the
  n-th request of a run with the n-th entry of a list (a transport error once the list is
  used up).
\<close>

definition sample_Join :: "string list \<Rightarrow> string" where
  "sample_Join elems =
     (case filter (\<lambda>e. e \<noteq> []) elems of
        [] \<Rightarrow> []
      | e # es \<Rightarrow> e @ concat (map (\<lambda>x. ''/'' @ x) es))"

definition sample_lib :: stdlib where
  \<open>sample_lib =
     \<lparr>json_createSiteRequest = (\<lambda>b.
        if b = ''{"id":"blog","content":"hello"}''
        then Inr \<lparr>createSiteRequest.ID = ''blog'', Content = ''hello''\<rparr>
        else Inl ''invalid character''),
      json_updateSiteRequest = (\<lambda>b.
        if b = ''{"content":"bye"}''
        then Inr \<lparr>updateSiteRequest.Content = ''bye''\<rparr>
        else Inl ''invalid character''),
      json_getStackResponse = (\<lambda>b.
        if b = ''{}'' then Inr \<lparr>CurrentOperation = None\<rparr>
        else if b = ''{"currentOperation":{"kind":"destroy"}}''
        then Inr \<lparr>CurrentOperation = Some \<lparr>Kind = ''destroy'', Author = [], Started = 0\<rparr>\<rparr>
        else if b = ''{"currentOperation":{"kind":"refresh"}}''
        then Inr \<lparr>CurrentOperation = Some \<lparr>Kind = ''refresh'', Author = [], Started = 0\<rparr>\<rparr>
        else Inl ''invalid character''),
      json_UntypedDeployment = (\<lambda>b.
        if b = ''{"version":2,"deployment":{}}''
        then Inr \<lparr>Version = 2, Deployment = ''{}''\<rparr>
        else if b = ''{"version":3,"deployment":{"resources":[]}}''
        then Inr \<lparr>Version = 3, Deployment = ''{"resources":[]}''\<rparr>
        else if b = ''{"version":3,"deployment":{"resources":[{"type":"pulumi:pulumi:Stack","outputs":{"websiteUrl":true}}]}}''
        then Inr \<lparr>Version = 3, Deployment = ''{"resources":[{"type":"pulumi:pulumi:Stack","outputs":{"websiteUrl":true}}]}''\<rparr>
        else Inl ''invalid character''),
      json_DeploymentV3 = (\<lambda>b.
        if b = ''{"resources":[]}'' then Inr \<lparr>Resources = []\<rparr>
        else if b = ''{"resources":[{"type":"pulumi:pulumi:Stack","outputs":{"websiteUrl":true}}]}''
        then Inr \<lparr>Resources =
               [\<lparr>Type = ''pulumi:pulumi:Stack'', Outputs = [''websiteUrl'' \<mapsto> JBool True]\<rparr>]\<rparr>
        else Inl ''invalid character''),
      json_getUserResponse = (\<lambda>b.
        if b = ''{"organizations":[]}'' then Inr \<lparr>Organizations = []\<rparr>
        else if b = ''{"organizations":[{"githubLogin":"acme"},{"githubLogin":"zeta"}]}''
        then Inr \<lparr>Organizations = [\<lparr>GitHubLogin = ''acme''\<rparr>, \<lparr>GitHubLogin = ''zeta''\<rparr>]\<rparr>
        else Inl ''invalid character''),
      path_Join = sample_Join\<rparr>\<close>

definition script :: "(string + response) list \<Rightarrow> client" where
  "script answers history req =
     (if length history < length answers then answers ! length history
      else Inl ''connection refused'')"

definition answer :: "int \<Rightarrow> string \<Rightarrow> string + response" where
  "answer status text = Inr \<lparr>StatusCode = status, Body = text, RawBody = text\<rparr>"

definition sample_server :: siteServer where
  "sample_server =
     \<lparr>repository = ''acme/sites'', branch = ''main'', dir = ''bucket-time'',
      roleARN = ''arn:aws:iam::1:role/deploy'', sessionName = ''site-deploy'',
      apiToken = ''pul-1'', org = ''acme'', project = ''sites''\<rparr>"

definition sample_flags :: flags where
  "sample_flags =
     \<lparr>flag_repo = ''acme/sites'', flag_branch = ''main'', flag_dir = ''bucket-time'',
      flag_role_arn = ''arn:aws:iam::1:role/deploy'', flag_session_name = ''site-deploy'',
      flag_token = ''pul-1'', flag_org = [], flag_project = ''sites'', flag_addr = '':8080''\<rparr>"

section \<open>The handlers, run from a fresh response writer\<close>

text \<open>
  Unfolding the response writer and the request log gives each write handler as a
  decision list over the remote's answers. The later results are read off these.
\<close>

lemmas writer_defs =
  WriteHeader_def Write_def Printf_def internalServerError_def execute_def fresh_def

lemma updateStack_run:
  "updateStack lib cl s stack content st =
     ((case cl (sent st) (update_call lib s stack content) of
         Inl e \<Rightarrow> Some e
       | Inr a \<Rightarrow> if StatusCode a \<noteq> 202 then Some (Body a) else None),
      st\<lparr>sent := sent st @ [update_call lib s stack content]\<rparr>)"
  by (simp add: updateStack_def execute_def split: sum.splits)

lemma create_run:
  "create lib cl s body fresh =
     (case json_createSiteRequest lib body of
        Inl e \<Rightarrow>
          \<lparr>code = Some 400, out = [Text ''failed to parse create request''],
           logged = [], sent = []\<rparr>
      | Inr c \<Rightarrow>
         (let stack = createSiteRequest.ID c;
              r1 = stack_call lib s stack;
              r2 = settings_call lib s stack;
              r3 = update_call lib s stack (createSiteRequest.Content c)
          in (case cl [] r1 of
                Inl e \<Rightarrow> failure [''Internal Server Error: creating stack: '' @ e] [r1]
              | Inr a1 \<Rightarrow>
                  if StatusCode a1 \<noteq> 200 \<and> StatusCode a1 \<noteq> 409
                  then failure [''Internal Server Error: creating stack: '' @ Body a1] [r1]
                  else
                   (case cl [r1] r2 of
                      Inl e \<Rightarrow>
                        failure [created_line s stack,
                                 ''Internal Server Error: configuring deployment: '' @ e] [r1, r2]
                    | Inr a2 \<Rightarrow>
                        if StatusCode a2 \<noteq> 200
                        then failure [created_line s stack,
                                      ''Internal Server Error: configuring deployment: '' @ Body a2]
                               [r1, r2]
                        else
                         (case cl [r1, r2] r3 of
                            Inl e \<Rightarrow>
                              failure [created_line s stack,
                                       ''Internal Server Error: starting deployment: '' @ e]
                                [r1, r2, r3]
                          | Inr a3 \<Rightarrow>
                              if StatusCode a3 \<noteq> 202
                              then failure [created_line s stack,
                                            ''Internal Server Error: starting deployment: '' @ Body a3]
                                     [r1, r2, r3]
                              else \<lparr>code = Some 202, out = [JSON [(''id'', stack)]],
                                    logged = [created_line s stack], sent = [r1, r2, r3]\<rparr>)))))"
  by (simp add: create_def updateStack_run writer_defs Encode_def Let_def
        split: sum.splits)

lemma update_run:
  "update lib cl s id' body fresh =
     (case json_updateSiteRequest lib body of
        Inl e \<Rightarrow>
          \<lparr>code = Some 400, out = [Text ''failed to parse update request''],
           logged = [], sent = []\<rparr>
      | Inr u \<Rightarrow>
         (let r = update_call lib s id' (updateSiteRequest.Content u)
          in (case cl [] r of
                Inl e \<Rightarrow> failure [''Internal Server Error: starting deployment: '' @ e] [r]
              | Inr a \<Rightarrow>
                  if StatusCode a \<noteq> 202
                  then failure [''Internal Server Error: starting deployment: '' @ Body a] [r]
                  else \<lparr>code = Some 202, out = [], logged = [], sent = [r]\<rparr>)))"
  by (simp add: update_def updateStack_run writer_defs Let_def split: sum.splits)

lemma delete_run:
  "delete lib cl s id' fresh =
     (let r = destroy_call lib s id'
      in (case cl [] r of
            Inl e \<Rightarrow> failure [''Internal Server Error: starting deployment: '' @ e] [r]
          | Inr a \<Rightarrow>
              if StatusCode a \<noteq> 202
              then failure [''Internal Server Error: starting deployment: '' @ Body a] [r]
              else \<lparr>code = Some 202, out = [], logged = [], sent = [r]\<rparr>))"
  by (simp add: delete_def writer_defs Let_def split: sum.splits)

text \<open>The two calls of \<^verbatim>\<open>get\<close> each add one request to the log and touch nothing else.\<close>

lemma get_operation_run:
  "get_operation lib cl s id' st =
     ((case cl (sent st) (stack_query lib s id') of
         Inl e \<Rightarrow> Inl e
       | Inr a \<Rightarrow>
           if StatusCode a \<noteq> 200 then Inl (Body a)
           else (case json_getStackResponse lib (RawBody a) of
                   Inl e \<Rightarrow> Inl e
                 | Inr sb \<Rightarrow> Inr (CurrentOperation sb))),
      st\<lparr>sent := sent st @ [stack_query lib s id']\<rparr>)"
  by (simp add: get_operation_def execute_def split: sum.splits)

lemma get_outputs_run:
  "get_outputs lib cl s id' st =
     ((case cl (sent st) (export_query lib s id') of
         Inl e \<Rightarrow> Inl e
       | Inr a \<Rightarrow>
           if StatusCode a \<noteq> 200 then Inl (Body a)
           else (case json_UntypedDeployment lib (RawBody a) of
                   Inl e \<Rightarrow> Inl e
                 | Inr ud \<Rightarrow>
                     if Version ud \<noteq> DeploymentSchemaVersionCurrent then Inr Map.empty
                     else (case json_DeploymentV3 lib (Deployment ud) of
                             Inl e \<Rightarrow> Inl (''unmarshaling deployment: '' @ e)
                           | Inr d \<Rightarrow>
                               (case stackResource (Resources d) of
                                  None \<Rightarrow> Inr Map.empty
                                | Some r \<Rightarrow> Inr (Outputs r))))),
      st\<lparr>sent := sent st @ [export_query lib s id']\<rparr>)"
  by (simp add: get_outputs_def execute_def split: sum.splits option.splits)

lemma get_run:
  "get lib cl s id' fresh =
     (case fst (get_operation lib cl s id' fresh) of
        Inl e \<Rightarrow> failure [''Internal Server Error: getting stack: '' @ e] [stack_query lib s id']
      | Inr operation \<Rightarrow>
         (case fst (get_outputs lib cl s id' (fresh\<lparr>sent := [stack_query lib s id']\<rparr>)) of
            Inl e \<Rightarrow>
              failure [''Internal Server Error: getting stack outputs: '' @ e]
                [stack_query lib s id', export_query lib s id']
          | Inr outputs \<Rightarrow>
              \<lparr>code = Some 200,
               out = [JSON (Encode
                 \<lparr>ID = id', URL = websiteUrl outputs,
                  Status = (case operation of
                              None \<Rightarrow> ''IDLE''
                            | Some op \<Rightarrow>
                                if Kind op = ''destroy'' then ''DELETING'' else ''UPDATING'')\<rparr>)],
               logged = [],
               sent = [stack_query lib s id', export_query lib s id']\<rparr>))"
  by (simp add: get_def get_operation_run get_outputs_run writer_defs Let_def
        split: sum.splits)

text \<open>What the encoder writes for the keys the results below ask about.\<close>

lemma Encode_status: "Status r \<noteq> [] \<Longrightarrow> map_of (Encode r) ''status'' = Some (Status r)"
  by (simp add: Encode_def)

lemma Encode_url: "map_of (Encode r) ''url'' = (if URL r = [] then None else Some (URL r))"
  by (simp add: Encode_def)

lemma Encode_id: "map_of (Encode r) ''id'' = Some (getSiteResponse.ID r)"
  by (simp add: Encode_def)

section \<open>Evaluating the concrete library and remotes\<close>

lemma script_nth:
  "script answers history req =
     (if length history < length answers then answers ! length history
      else Inl ''connection refused'')"
  by (simp add: script_def)

lemma sample_create_body:
  \<open>json_createSiteRequest sample_lib ''{"id":"blog","content":"hello"}'' =
     Inr \<lparr>createSiteRequest.ID = ''blog'', Content = ''hello''\<rparr>\<close>
  by (simp add: sample_lib_def)

lemma sample_update_body:
  \<open>json_updateSiteRequest sample_lib ''{"content":"bye"}'' =
     Inr \<lparr>updateSiteRequest.Content = ''bye''\<rparr>\<close>
  by (simp add: sample_lib_def)

lemma sample_stack_bodies:
  \<open>json_getStackResponse sample_lib ''{}'' = Inr \<lparr>CurrentOperation = None\<rparr>\<close>
  \<open>json_getStackResponse sample_lib ''{"currentOperation":{"kind":"destroy"}}'' =
     Inr \<lparr>CurrentOperation = Some \<lparr>Kind = ''destroy'', Author = [], Started = 0\<rparr>\<rparr>\<close>
  \<open>json_getStackResponse sample_lib ''{"currentOperation":{"kind":"refresh"}}'' =
     Inr \<lparr>CurrentOperation = Some \<lparr>Kind = ''refresh'', Author = [], Started = 0\<rparr>\<rparr>\<close>
  \<open>json_getStackResponse sample_lib ''<html>'' = Inl ''invalid character''\<close>
  by (simp_all add: sample_lib_def)

lemma sample_exports:
  \<open>json_UntypedDeployment sample_lib ''{"version":2,"deployment":{}}'' =
     Inr \<lparr>Version = 2, Deployment = ''{}''\<rparr>\<close>
  \<open>json_UntypedDeployment sample_lib ''{"version":3,"deployment":{"resources":[]}}'' =
     Inr \<lparr>Version = 3, Deployment = ''{"resources":[]}''\<rparr>\<close>
  \<open>json_UntypedDeployment sample_lib
     ''{"version":3,"deployment":{"resources":[{"type":"pulumi:pulumi:Stack","outputs":{"websiteUrl":true}}]}}'' =
     Inr \<lparr>Version = 3,
          Deployment = ''{"resources":[{"type":"pulumi:pulumi:Stack","outputs":{"websiteUrl":true}}]}''\<rparr>\<close>
  by (simp_all add: sample_lib_def)

lemma sample_deployments:
  \<open>json_DeploymentV3 sample_lib ''{"resources":[]}'' = Inr \<lparr>Resources = []\<rparr>\<close>
  \<open>json_DeploymentV3 sample_lib
     ''{"resources":[{"type":"pulumi:pulumi:Stack","outputs":{"websiteUrl":true}}]}'' =
     Inr \<lparr>Resources =
           [\<lparr>Type = ''pulumi:pulumi:Stack'', Outputs = [''websiteUrl'' \<mapsto> JBool True]\<rparr>]\<rparr>\<close>
  by (simp_all add: sample_lib_def)

lemma sample_users:
  \<open>json_getUserResponse sample_lib ''{"organizations":[]}'' = Inr \<lparr>Organizations = []\<rparr>\<close>
  \<open>json_getUserResponse sample_lib
     ''{"organizations":[{"githubLogin":"acme"},{"githubLogin":"zeta"}]}'' =
     Inr \<lparr>Organizations = [\<lparr>GitHubLogin = ''acme''\<rparr>, \<lparr>GitHubLogin = ''zeta''\<rparr>]\<rparr>\<close>
  by (simp_all add: sample_lib_def)

section \<open>Results\<close>

subsection \<open>Malformed request bodies\<close>

text \<open>
  C5. A Create or Update request whose body the JSON decoder rejects is answered with
  status 400 and the parse-failure message of the handler, and no request goes out to
  the remote API: the request log stays empty.
\<close>

theorem malformed_body_is_rejected:
  "(json_createSiteRequest lib body = Inl e \<longrightarrow>
      create lib cl s body fresh =
        \<lparr>code = Some 400, out = [Text ''failed to parse create request''],
         logged = [], sent = []\<rparr>)
   \<and> (json_updateSiteRequest lib body = Inl e \<longrightarrow>
      update lib cl s id' body fresh =
        \<lparr>code = Some 400, out = [Text ''failed to parse update request''],
         logged = [], sent = []\<rparr>)"
  by (simp add: create_run update_run)

theorem malformed_body_is_rejected_witness:
  "json_createSiteRequest sample_lib ''{'' = Inl ''invalid character''
   \<and> create sample_lib (script []) sample_server ''{'' fresh =
        \<lparr>code = Some 400, out = [Text ''failed to parse create request''],
         logged = [], sent = []\<rparr>
   \<and> json_updateSiteRequest sample_lib ''{'' = Inl ''invalid character''
   \<and> update sample_lib (script []) sample_server ''blog'' ''{'' fresh =
        \<lparr>code = Some 400, out = [Text ''failed to parse update request''],
         logged = [], sent = []\<rparr>"
proof -
  have c: "json_createSiteRequest sample_lib ''{'' = Inl ''invalid character''"
    by (simp add: sample_lib_def)
  have u: "json_updateSiteRequest sample_lib ''{'' = Inl ''invalid character''"
    by (simp add: sample_lib_def)
  from malformed_body_is_rejected
         [of sample_lib "''{''" "''invalid character''" "script []" sample_server "''blog''"]
  show ?thesis using c u by simp
qed

subsection \<open>Accepted writes\<close>

text \<open>
  C6. A write request that succeeds is answered with status 202. For Create (the body
  decodes, stack registration is answered 200 or 409, the settings 200, the deployment
  202) the body is the JSON object holding the site id; for Update (the body decodes,
  the deployment is answered 202) and Delete (the destroy is answered 202) the body is
  empty.
\<close>

theorem accepted_writes:
  "(json_createSiteRequest lib body = Inr c
      \<and> cl [] (stack_call lib s (createSiteRequest.ID c)) = Inr x
      \<and> (StatusCode x = 200 \<or> StatusCode x = 409)
      \<and> cl [stack_call lib s (createSiteRequest.ID c)]
            (settings_call lib s (createSiteRequest.ID c)) = Inr y
      \<and> StatusCode y = 200
      \<and> cl [stack_call lib s (createSiteRequest.ID c),
             settings_call lib s (createSiteRequest.ID c)]
            (update_call lib s (createSiteRequest.ID c) (createSiteRequest.Content c)) = Inr z
      \<and> StatusCode z = 202
    \<longrightarrow> code (create lib cl s body fresh) = Some 202
        \<and> out (create lib cl s body fresh) = [JSON [(''id'', createSiteRequest.ID c)]])
   \<and> (json_updateSiteRequest lib body' = Inr u
      \<and> cl [] (update_call lib s id' (updateSiteRequest.Content u)) = Inr a
      \<and> StatusCode a = 202
    \<longrightarrow> code (update lib cl s id' body' fresh) = Some 202
        \<and> out (update lib cl s id' body' fresh) = [])
   \<and> (cl [] (destroy_call lib s id') = Inr a' \<and> StatusCode a' = 202
    \<longrightarrow> code (delete lib cl s id' fresh) = Some 202
        \<and> out (delete lib cl s id' fresh) = [])"
  by (auto simp add: create_run update_run delete_run Let_def)

theorem accepted_writes_witness:
  \<open>code (create sample_lib (script [answer 409 ''stack exists'', answer 200 [], answer 202 []])
           sample_server ''{"id":"blog","content":"hello"}'' fresh) = Some 202
   \<and> out (create sample_lib (script [answer 409 ''stack exists'', answer 200 [], answer 202 []])
           sample_server ''{"id":"blog","content":"hello"}'' fresh) = [JSON [(''id'', ''blog'')]]
   \<and> code (update sample_lib (script [answer 202 []]) sample_server ''blog''
           ''{"content":"bye"}'' fresh) = Some 202
   \<and> out (update sample_lib (script [answer 202 []]) sample_server ''blog''
           ''{"content":"bye"}'' fresh) = []
   \<and> code (delete sample_lib (script [answer 202 []]) sample_server ''blog'' fresh) = Some 202
   \<and> out (delete sample_lib (script [answer 202 []]) sample_server ''blog'' fresh) = []\<close>
proof -
  let ?cl = "script [answer 409 ''stack exists'', answer 200 [], answer 202 []]"
  let ?cl' = "script [answer 202 []]"
  note w = accepted_writes
    [where lib = sample_lib and s = sample_server and id' = "''blog''"
       and c = "\<lparr>createSiteRequest.ID = ''blog'', Content = ''hello''\<rparr>"
       and u = "\<lparr>updateSiteRequest.Content = ''bye''\<rparr>"
       and x = "\<lparr>StatusCode = 409, Body = ''stack exists'', RawBody = ''stack exists''\<rparr>"
       and y = "\<lparr>StatusCode = 200, Body = [], RawBody = []\<rparr>"
       and z = "\<lparr>StatusCode = 202, Body = [], RawBody = []\<rparr>"
       and a = "\<lparr>StatusCode = 202, Body = [], RawBody = []\<rparr>"
       and a' = "\<lparr>StatusCode = 202, Body = [], RawBody = []\<rparr>"]
  have 1: \<open>code (create sample_lib ?cl sample_server ''{"id":"blog","content":"hello"}'' fresh)
              = Some 202
     \<and> out (create sample_lib ?cl sample_server ''{"id":"blog","content":"hello"}'' fresh)
              = [JSON [(''id'', ''blog'')]]\<close>
    using w [where cl = ?cl, THEN conjunct1]
    by (simp add: sample_create_body script_nth answer_def)
  have 2: \<open>code (update sample_lib ?cl' sample_server ''blog'' ''{"content":"bye"}'' fresh)
              = Some 202
     \<and> out (update sample_lib ?cl' sample_server ''blog'' ''{"content":"bye"}'' fresh) = []\<close>
    using w [where cl = ?cl', THEN conjunct2, THEN conjunct1]
    by (simp add: sample_update_body script_nth answer_def)
  have 3: "code (delete sample_lib ?cl' sample_server ''blog'' fresh) = Some 202
     \<and> out (delete sample_lib ?cl' sample_server ''blog'' fresh) = []"
    using w [where cl = ?cl', THEN conjunct2, THEN conjunct2]
    by (simp add: script_nth answer_def)
  from 1 2 3 show ?thesis by simp
qed

subsection \<open>Update re-sends no settings\<close>

text \<open>
  C7. An Update request (with a body that decodes to \<open>u\<close>) sends exactly one outbound
  request. Its body is a deployment request with \<^verbatim>\<open>InheritSettings\<close> true and operation
  "update"; the operation context's environment has the one variable \<^verbatim>\<open>SITE_CONTENT\<close>,
  bound to the content of \<open>u\<close>, and no OIDC part; there is no source context and there
  are no GitHub settings.
\<close>

theorem update_inherits_settings:
  assumes "json_updateSiteRequest lib body = Inr u"
  shows "\<exists>req. sent (update lib cl s id' body fresh) = [req]
           \<and> Payload req = DeploymentBody
                \<lparr>SourceContext = None,
                 OperationContext = Some
                   \<lparr>Environment = [''SITE_CONTENT'' \<mapsto> updateSiteRequest.Content u],
                    OIDC = None\<rparr>,
                 GitHub = None,
                 InheritSettings = True,
                 Operation = ''update''\<rparr>"
proof -
  have "sent (update lib cl s id' body fresh)
          = [update_call lib s id' (updateSiteRequest.Content u)]"
    using assms by (simp add: update_run Let_def split: sum.splits)
  then show ?thesis
    by (simp add: update_call_def)
qed

theorem update_inherits_settings_witness:
  \<open>\<exists>req. sent (update sample_lib (script [answer 202 []]) sample_server ''blog''
                 ''{"content":"bye"}'' fresh) = [req]
         \<and> Payload req = DeploymentBody
              \<lparr>SourceContext = None,
               OperationContext = Some \<lparr>Environment = [''SITE_CONTENT'' \<mapsto> ''bye''], OIDC = None\<rparr>,
               GitHub = None,
               InheritSettings = True,
               Operation = ''update''\<rparr>\<close>
  using update_inherits_settings [OF sample_update_body, of "script [answer 202 []]" sample_server "''blog''"]
  by auto

subsection \<open>Create does not roll back\<close>

text \<open>
  C9. Create (with a body that decodes to \<open>c\<close>) issues its outbound requests in the
  order stack registration, settings configuration, deployment start, and stops at the
  first refused step: the request log is the registration alone when it is refused, the
  registration and the settings when the settings are refused, and all three otherwise.
  Nothing follows a refused step, so nothing undoes the steps already done; every request
  of the log is a POST, and a deployment request among them is an update, never a
  destroy.
\<close>

theorem create_stops_at_first_refusal:
  assumes "json_createSiteRequest lib body = Inr c"
  shows "let stack = createSiteRequest.ID c;
             r1 = stack_call lib s stack;
             r2 = settings_call lib s stack;
             r3 = update_call lib s stack (createSiteRequest.Content c);
             log = sent (create lib cl s body fresh)
         in log = (if refused {200, 409} (cl [] r1) then [r1]
                   else if refused {200} (cl [r1] r2) then [r1, r2]
                   else [r1, r2, r3])
            \<and> (\<forall>r \<in> set log.
                  Method r = ''POST''
                  \<and> (\<forall>d. Payload r = DeploymentBody d \<longrightarrow> Operation d = ''update''))"
proof -
  let ?stack = "createSiteRequest.ID c"
  let ?r1 = "stack_call lib s ?stack"
  let ?r2 = "settings_call lib s ?stack"
  let ?r3 = "update_call lib s ?stack (createSiteRequest.Content c)"
  let ?log = "sent (create lib cl s body fresh)"
  have order: "?log = (if refused {200, 409} (cl [] ?r1) then [?r1]
                       else if refused {200} (cl [?r1] ?r2) then [?r1, ?r2]
                       else [?r1, ?r2, ?r3])"
    using assms by (simp add: create_run Let_def split: sum.splits)
  have posts: "Method ?r1 = ''POST''" "Method ?r2 = ''POST''" "Method ?r3 = ''POST''"
    by (simp_all add: stack_call_def settings_call_def update_call_def Let_def)
  have bodies:
    "\<forall>d. Payload ?r1 = DeploymentBody d \<longrightarrow> Operation d = ''update''"
    "\<forall>d. Payload ?r2 = DeploymentBody d \<longrightarrow> Operation d = ''update''"
    "\<forall>d. Payload ?r3 = DeploymentBody d \<longrightarrow> Operation d = ''update''"
    by (auto simp add: stack_call_def settings_call_def update_call_def Let_def)
  have "set ?log \<subseteq> {?r1, ?r2, ?r3}"
    by (subst order) simp
  with posts bodies
  have "\<forall>r \<in> set ?log. Method r = ''POST''
          \<and> (\<forall>d. Payload r = DeploymentBody d \<longrightarrow> Operation d = ''update'')"
    by blast
  with order show ?thesis
    unfolding Let_def by (rule conjI)
qed

theorem create_stops_at_first_refusal_witness:
  \<open>sent (create sample_lib (script [answer 200 [], answer 503 ''unavailable'', answer 202 []])
           sample_server ''{"id":"blog","content":"hello"}'' fresh)
     = [stack_call sample_lib sample_server ''blog'',
        settings_call sample_lib sample_server ''blog'']\<close>
  using create_stops_at_first_refusal
          [OF sample_create_body,
           of sample_server "script [answer 200 [], answer 503 ''unavailable'', answer 202 []]"]
  by (simp add: Let_def script_nth answer_def)

subsection \<open>When Create answers with a server error\<close>

text \<open>
  C2, as stated, says that Create returns a server error only when stack registration or
  settings configuration fails for a reason other than conflict. A run in which both are
  answered 200 and the deployment start is answered 500 ends in a server error all the
  same.
\<close>

theorem create_error_after_settings_counterexample:
  \<open>\<not> refused {200, 409}
        (script [answer 200 [], answer 200 [], answer 500 ''no capacity'']
           [] (stack_call sample_lib sample_server ''blog''))
   \<and> \<not> refused {200}
        (script [answer 200 [], answer 200 [], answer 500 ''no capacity'']
           [stack_call sample_lib sample_server ''blog'']
           (settings_call sample_lib sample_server ''blog''))
   \<and> code (create sample_lib (script [answer 200 [], answer 200 [], answer 500 ''no capacity''])
              sample_server ''{"id":"blog","content":"hello"}'' fresh) = Some 500\<close>
  by (simp add: create_run sample_create_body Let_def script_nth answer_def)

text \<open>
  C2, amended. A 409 from stack registration is treated like a 200: the handler goes on
  to the next step. Create (with a body that decodes) answers with a server error exactly
  when stack registration is refused (a transport error or a status other than 200 and
  409), settings configuration is refused (a transport error or a status other than 200)
  or the deployment start is refused (a transport error or a status other than 202); in
  every other run it answers 202.
\<close>

theorem create_error_iff_step_refused:
  assumes "json_createSiteRequest lib body = Inr c"
  shows "let stack = createSiteRequest.ID c;
             r1 = stack_call lib s stack;
             r2 = settings_call lib s stack;
             r3 = update_call lib s stack (createSiteRequest.Content c);
             fin = create lib cl s body fresh
         in (code fin = Some 500 \<longleftrightarrow>
               refused {200, 409} (cl [] r1)
               \<or> refused {200} (cl [r1] r2)
               \<or> refused {202} (cl [r1, r2] r3))
            \<and> (code fin = Some 500 \<or> code fin = Some 202)
            \<and> (\<forall>a. cl [] r1 = Inr a \<and> StatusCode a = 409 \<longrightarrow> r2 \<in> set (sent fin))"
  using assms by (simp add: create_run Let_def split: sum.splits)

theorem create_error_iff_step_refused_witness:
  \<open>code (create sample_lib (script [answer 409 ''stack exists'', answer 200 [], answer 202 []])
           sample_server ''{"id":"blog","content":"hello"}'' fresh) = Some 202
   \<and> settings_call sample_lib sample_server ''blog''
       \<in> set (sent (create sample_lib
                       (script [answer 409 ''stack exists'', answer 200 [], answer 202 []])
                       sample_server ''{"id":"blog","content":"hello"}'' fresh))\<close>
  using create_error_iff_step_refused
          [OF sample_create_body,
           of sample_server "script [answer 409 ''stack exists'', answer 200 [], answer 202 []]"]
  by (auto simp add: Let_def script_nth answer_def)

subsection \<open>Refused steps of the write handlers\<close>

text \<open>
  C4, as stated, covers every remote response outside 2xx/202. Stack registration
  answered 409 is such a response, and Create goes on and answers 202.
\<close>

theorem conflict_is_not_an_error_counterexample:
  \<open>script [answer 409 ''stack exists'', answer 200 [], answer 202 []]
       [] (stack_call sample_lib sample_server ''blog'')
     = Inr \<lparr>StatusCode = 409, Body = ''stack exists'', RawBody = ''stack exists''\<rparr>
   \<and> code (create sample_lib (script [answer 409 ''stack exists'', answer 200 [], answer 202 []])
              sample_server ''{"id":"blog","content":"hello"}'' fresh) = Some 202
   \<and> out (create sample_lib (script [answer 409 ''stack exists'', answer 200 [], answer 202 []])
              sample_server ''{"id":"blog","content":"hello"}'' fresh) = [JSON [(''id'', ''blog'')]]\<close>
  by (simp add: create_run sample_create_body Let_def script_nth answer_def)

text \<open>
  C4, amended. Whenever the remote answers a step of Create, Update or Delete with a
  status the step does not accept (stack registration accepts 200 and 409, settings
  configuration 200, a deployment start and a destroy 202), the handler answers 500, the
  response body is the fixed text "Internal Server Error" and nothing of the upstream
  answer, and the last log line carries the upstream body.
\<close>

theorem refused_status_is_500:
  "(json_createSiteRequest lib body = Inr c
      \<and> cl [] (stack_call lib s (createSiteRequest.ID c)) = Inr x
      \<and> StatusCode x \<noteq> 200 \<and> StatusCode x \<noteq> 409
    \<longrightarrow> code (create lib cl s body fresh) = Some 500
        \<and> out (create lib cl s body fresh) = [Text ''Internal Server Error'']
        \<and> last (logged (create lib cl s body fresh))
            = ''Internal Server Error: creating stack: '' @ Body x)
   \<and> (json_createSiteRequest lib body = Inr c
      \<and> \<not> refused {200, 409} (cl [] (stack_call lib s (createSiteRequest.ID c)))
      \<and> cl [stack_call lib s (createSiteRequest.ID c)]
            (settings_call lib s (createSiteRequest.ID c)) = Inr y
      \<and> StatusCode y \<noteq> 200
    \<longrightarrow> code (create lib cl s body fresh) = Some 500
        \<and> out (create lib cl s body fresh) = [Text ''Internal Server Error'']
        \<and> last (logged (create lib cl s body fresh))
            = ''Internal Server Error: configuring deployment: '' @ Body y)
   \<and> (json_createSiteRequest lib body = Inr c
      \<and> \<not> refused {200, 409} (cl [] (stack_call lib s (createSiteRequest.ID c)))
      \<and> \<not> refused {200} (cl [stack_call lib s (createSiteRequest.ID c)]
                            (settings_call lib s (createSiteRequest.ID c)))
      \<and> cl [stack_call lib s (createSiteRequest.ID c),
             settings_call lib s (createSiteRequest.ID c)]
            (update_call lib s (createSiteRequest.ID c) (createSiteRequest.Content c)) = Inr z
      \<and> StatusCode z \<noteq> 202
    \<longrightarrow> code (create lib cl s body fresh) = Some 500
        \<and> out (create lib cl s body fresh) = [Text ''Internal Server Error'']
        \<and> last (logged (create lib cl s body fresh))
            = ''Internal Server Error: starting deployment: '' @ Body z)
   \<and> (json_updateSiteRequest lib body' = Inr u
      \<and> cl [] (update_call lib s id' (updateSiteRequest.Content u)) = Inr a
      \<and> StatusCode a \<noteq> 202
    \<longrightarrow> update lib cl s id' body' fresh
          = failure [''Internal Server Error: starting deployment: '' @ Body a]
              [update_call lib s id' (updateSiteRequest.Content u)])
   \<and> (cl [] (destroy_call lib s id') = Inr a' \<and> StatusCode a' \<noteq> 202
    \<longrightarrow> delete lib cl s id' fresh
          = failure [''Internal Server Error: starting deployment: '' @ Body a']
              [destroy_call lib s id'])"
  by (simp add: create_run update_run delete_run Let_def split: sum.splits)

theorem refused_status_is_500_witness:
  \<open>code (create sample_lib (script [answer 200 [], answer 503 ''unavailable''])
           sample_server ''{"id":"blog","content":"hello"}'' fresh) = Some 500
   \<and> out (create sample_lib (script [answer 200 [], answer 503 ''unavailable''])
           sample_server ''{"id":"blog","content":"hello"}'' fresh)
       = [Text ''Internal Server Error'']
   \<and> last (logged (create sample_lib (script [answer 200 [], answer 503 ''unavailable''])
           sample_server ''{"id":"blog","content":"hello"}'' fresh))
       = ''Internal Server Error: configuring deployment: unavailable''
   \<and> delete sample_lib (script [answer 404 ''no such stack'']) sample_server ''blog'' fresh
       = failure [''Internal Server Error: starting deployment: no such stack'']
           [destroy_call sample_lib sample_server ''blog'']\<close>
proof -
  let ?cl = "script [answer 200 [], answer 503 ''unavailable'']"
  let ?cl' = "script [answer 404 ''no such stack'']"
  note w = refused_status_is_500
    [where lib = sample_lib and s = sample_server and id' = "''blog''"
       and c = "\<lparr>createSiteRequest.ID = ''blog'', Content = ''hello''\<rparr>"
       and y = "\<lparr>StatusCode = 503, Body = ''unavailable'', RawBody = ''unavailable''\<rparr>"
       and a' = "\<lparr>StatusCode = 404, Body = ''no such stack'', RawBody = ''no such stack''\<rparr>"]
  have 1: \<open>code (create sample_lib ?cl sample_server ''{"id":"blog","content":"hello"}'' fresh)
             = Some 500
     \<and> out (create sample_lib ?cl sample_server ''{"id":"blog","content":"hello"}'' fresh)
         = [Text ''Internal Server Error'']
     \<and> last (logged (create sample_lib ?cl sample_server
                        ''{"id":"blog","content":"hello"}'' fresh))
         = ''Internal Server Error: configuring deployment: unavailable''\<close>
    using w [where cl = ?cl, THEN conjunct2, THEN conjunct1]
    by (simp add: sample_create_body script_nth answer_def)
  have 2: "delete sample_lib ?cl' sample_server ''blog'' fresh
       = failure [''Internal Server Error: starting deployment: no such stack'']
           [destroy_call sample_lib sample_server ''blog'']"
    using w [where cl = ?cl', THEN conjunct2, THEN conjunct2, THEN conjunct2, THEN conjunct2]
    by (simp add: script_nth answer_def)
  from 1 2 show ?thesis by simp
qed

subsection \<open>The status of a site\<close>

text \<open>
  C1. When both calls of Get succeed (neither anonymous function returns an error), the
  response is a 200 whose \<^verbatim>\<open>status\<close> member is decided by the current operation of the
  stack response alone: "IDLE" when there is none, "DELETING" when its kind is "destroy",
  "UPDATING" for every other kind. The outputs of the export play no part in it.
\<close>

theorem status_follows_current_operation:
  assumes "get_operation lib cl s id' fresh = (Inr operation, st1)"
      and "get_outputs lib cl s id' st1 = (Inr outputs, st2)"
  shows "(\<exists>a sb. cl [] (stack_query lib s id') = Inr a
             \<and> json_getStackResponse lib (RawBody a) = Inr sb
             \<and> CurrentOperation sb = operation)
         \<and> code (get lib cl s id' fresh) = Some 200
         \<and> (\<exists>fields. out (get lib cl s id' fresh) = [JSON fields]
               \<and> map_of fields ''status'' =
                   Some (case operation of
                           None \<Rightarrow> ''IDLE''
                         | Some op \<Rightarrow>
                             if Kind op = ''destroy'' then ''DELETING'' else ''UPDATING''))"
proof -
  from assms(1) have st1: "st1 = fresh\<lparr>sent := [stack_query lib s id']\<rparr>"
    by (simp add: get_operation_run fresh_def)
  from assms(1) have op: "fst (get_operation lib cl s id' fresh) = Inr operation"
    by simp
  from assms(2) st1
  have outs: "fst (get_outputs lib cl s id' (fresh\<lparr>sent := [stack_query lib s id']\<rparr>)) = Inr outputs"
    by simp
  have source: "\<exists>a sb. cl [] (stack_query lib s id') = Inr a
             \<and> json_getStackResponse lib (RawBody a) = Inr sb
             \<and> CurrentOperation sb = operation"
    using assms(1)
    by (auto simp add: get_operation_run fresh_def split: sum.splits if_splits)
  let ?status = "case operation of
                   None \<Rightarrow> ''IDLE''
                 | Some op \<Rightarrow> if Kind op = ''destroy'' then ''DELETING'' else ''UPDATING''"
  have nonempty: "?status \<noteq> []"
    by (simp split: option.splits)
  have fin: "get lib cl s id' fresh =
      \<lparr>code = Some 200,
       out = [JSON (Encode \<lparr>ID = id', URL = websiteUrl outputs, Status = ?status\<rparr>)],
       logged = [],
       sent = [stack_query lib s id', export_query lib s id']\<rparr>"
    by (simp add: get_run op outs)
  have "map_of (Encode \<lparr>ID = id', URL = websiteUrl outputs, Status = ?status\<rparr>) ''status''
          = Some ?status"
    using nonempty by (simp add: Encode_status)
  with fin source show ?thesis by simp
qed

theorem status_follows_current_operation_witness:
  \<open>(\<exists>fields.
       out (get sample_lib
              (script [answer 200 ''{}'', answer 200 ''{"version":2,"deployment":{}}''])
              sample_server ''blog'' fresh) = [JSON fields]
       \<and> map_of fields ''status'' = Some ''IDLE'')
   \<and> (\<exists>fields.
       out (get sample_lib
              (script [answer 200 ''{"currentOperation":{"kind":"destroy"}}'',
                       answer 200 ''{"version":2,"deployment":{}}''])
              sample_server ''blog'' fresh) = [JSON fields]
       \<and> map_of fields ''status'' = Some ''DELETING'')
   \<and> (\<exists>fields.
       out (get sample_lib
              (script [answer 200 ''{"currentOperation":{"kind":"refresh"}}'',
                       answer 200 ''{"version":2,"deployment":{}}''])
              sample_server ''blog'' fresh) = [JSON fields]
       \<and> map_of fields ''status'' = Some ''UPDATING'')\<close>
proof -
  let ?q = "stack_query sample_lib sample_server ''blog''"
  let ?export = \<open>answer 200 ''{"version":2,"deployment":{}}''\<close>
  have run:
    "\<exists>fields. out (get sample_lib (script [answer 200 raw, ?export]) sample_server ''blog'' fresh)
                 = [JSON fields]
        \<and> map_of fields ''status'' =
            Some (case operation of
                    None \<Rightarrow> ''IDLE''
                  | Some op \<Rightarrow> if Kind op = ''destroy'' then ''DELETING'' else ''UPDATING'')"
    if "json_getStackResponse sample_lib raw = Inr \<lparr>CurrentOperation = operation\<rparr>"
    for raw operation
  proof -
    let ?cl = "script [answer 200 raw, ?export]"
    have 1: "get_operation sample_lib ?cl sample_server ''blog'' fresh
               = (Inr operation, fresh\<lparr>sent := [?q]\<rparr>)"
      using that by (simp add: get_operation_run script_nth answer_def fresh_def)
    have 2: "get_outputs sample_lib ?cl sample_server ''blog'' (fresh\<lparr>sent := [?q]\<rparr>)
               = (Inr Map.empty,
                  fresh\<lparr>sent := [?q, export_query sample_lib sample_server ''blog'']\<rparr>)"
      by (simp add: get_outputs_run script_nth answer_def fresh_def sample_exports
            DeploymentSchemaVersionCurrent_def)
    from status_follows_current_operation [OF 1 2] show ?thesis by simp
  qed
  from run [OF sample_stack_bodies(1)] run [OF sample_stack_bodies(2)]
       run [OF sample_stack_bodies(3)]
  show ?thesis by simp
qed

subsection \<open>The URL of a site\<close>

text \<open>The loop finds a resource exactly when the list has one of the root stack's type.\<close>

lemma stackResource_None:
  "stackResource rs = None \<longleftrightarrow> (\<forall>r \<in> set rs. Type r \<noteq> ''pulumi:pulumi:Stack'')"
  by (induction rs) auto

lemma stackResource_Some:
  "stackResource rs = Some r \<Longrightarrow> r \<in> set rs \<and> Type r = ''pulumi:pulumi:Stack''"
  by (induction rs) (auto split: if_splits)

lemma stackResource_first:
  "stackResource rs = Some r \<longleftrightarrow>
     (\<exists>before after. rs = before @ r # after
        \<and> Type r = ''pulumi:pulumi:Stack''
        \<and> (\<forall>b \<in> set before. Type b \<noteq> ''pulumi:pulumi:Stack''))"
proof (induction rs)
  case Nil
  then show ?case by simp
next
  case (Cons x xs)
  show ?case
  proof (cases "Type x = ''pulumi:pulumi:Stack''")
    case True
    have "stackResource (x # xs) = Some r \<longleftrightarrow> x = r"
      using True by auto
    also have "\<dots> \<longleftrightarrow>
       (\<exists>before after. x # xs = before @ r # after
          \<and> Type r = ''pulumi:pulumi:Stack''
          \<and> (\<forall>b \<in> set before. Type b \<noteq> ''pulumi:pulumi:Stack''))"
    proof
      assume "x = r"
      with True have "x # xs = [] @ r # xs \<and> Type r = ''pulumi:pulumi:Stack''
          \<and> (\<forall>b \<in> set []. Type b \<noteq> ''pulumi:pulumi:Stack'')"
        by simp
      then show "\<exists>before after. x # xs = before @ r # after
          \<and> Type r = ''pulumi:pulumi:Stack''
          \<and> (\<forall>b \<in> set before. Type b \<noteq> ''pulumi:pulumi:Stack'')"
        by blast
    next
      assume "\<exists>before after. x # xs = before @ r # after
          \<and> Type r = ''pulumi:pulumi:Stack''
          \<and> (\<forall>b \<in> set before. Type b \<noteq> ''pulumi:pulumi:Stack'')"
      then obtain before after where
        split: "x # xs = before @ r # after"
        and clean: "\<forall>b \<in> set before. Type b \<noteq> ''pulumi:pulumi:Stack''"
        by blast
      show "x = r"
      proof (cases before)
        case Nil
        with split show ?thesis by simp
      next
        case (Cons b bs)
        with split have "b = x" by simp
        with Cons clean True show ?thesis by simp
      qed
    qed
    finally show ?thesis .
  next
    case False
    have "stackResource (x # xs) = Some r \<longleftrightarrow> stackResource xs = Some r"
      using False by simp
    also have "\<dots> \<longleftrightarrow>
       (\<exists>before after. xs = before @ r # after
          \<and> Type r = ''pulumi:pulumi:Stack''
          \<and> (\<forall>b \<in> set before. Type b \<noteq> ''pulumi:pulumi:Stack''))"
      by (rule Cons.IH)
    also have "\<dots> \<longleftrightarrow>
       (\<exists>before after. x # xs = before @ r # after
          \<and> Type r = ''pulumi:pulumi:Stack''
          \<and> (\<forall>b \<in> set before. Type b \<noteq> ''pulumi:pulumi:Stack''))"
    proof
      assume "\<exists>before after. xs = before @ r # after
          \<and> Type r = ''pulumi:pulumi:Stack''
          \<and> (\<forall>b \<in> set before. Type b \<noteq> ''pulumi:pulumi:Stack'')"
      then obtain before after where
        "xs = before @ r # after" "Type r = ''pulumi:pulumi:Stack''"
        "\<forall>b \<in> set before. Type b \<noteq> ''pulumi:pulumi:Stack''"
        by blast
      with False have "x # xs = (x # before) @ r # after
          \<and> Type r = ''pulumi:pulumi:Stack''
          \<and> (\<forall>b \<in> set (x # before). Type b \<noteq> ''pulumi:pulumi:Stack'')"
        by simp
      then show "\<exists>before after. x # xs = before @ r # after
          \<and> Type r = ''pulumi:pulumi:Stack''
          \<and> (\<forall>b \<in> set before. Type b \<noteq> ''pulumi:pulumi:Stack'')"
        by blast
    next
      assume "\<exists>before after. x # xs = before @ r # after
          \<and> Type r = ''pulumi:pulumi:Stack''
          \<and> (\<forall>b \<in> set before. Type b \<noteq> ''pulumi:pulumi:Stack'')"
      then obtain before after where
        split: "x # xs = before @ r # after"
        and root: "Type r = ''pulumi:pulumi:Stack''"
        and clean: "\<forall>b \<in> set before. Type b \<noteq> ''pulumi:pulumi:Stack''"
        by blast
      show "\<exists>before after. xs = before @ r # after
          \<and> Type r = ''pulumi:pulumi:Stack''
          \<and> (\<forall>b \<in> set before. Type b \<noteq> ''pulumi:pulumi:Stack'')"
      proof (cases before)
        case Nil
        with split root False show ?thesis by simp
      next
        case (Cons b bs)
        with split clean root
        have "xs = bs @ r # after \<and> Type r = ''pulumi:pulumi:Stack''
            \<and> (\<forall>b \<in> set bs. Type b \<noteq> ''pulumi:pulumi:Stack'')"
          by simp
        then show ?thesis by blast
      qed
    qed
    finally show ?thesis .
  qed
qed

text \<open>
  C3. Take a Get in which both remote calls are made and both are answered 200, and
  whose export decodes. If the export's schema version is not the current one, or its
  deployment holds no resource of type "pulumi:pulumi:Stack", the response is a 200 with
  the id and no \<^verbatim>\<open>url\<close> member, and nothing is logged: neither condition is an error.
\<close>

theorem unknown_version_or_no_root_omits_url:
  assumes "cl [] (stack_query lib s id') = Inr x" and "StatusCode x = 200"
      and "cl [stack_query lib s id'] (export_query lib s id') = Inr y" and "StatusCode y = 200"
      and "sent (get lib cl s id' fresh) = [stack_query lib s id', export_query lib s id']"
      and "json_UntypedDeployment lib (RawBody y) = Inr ud"
      and "Version ud \<noteq> DeploymentSchemaVersionCurrent
           \<or> (json_DeploymentV3 lib (Deployment ud) = Inr d
               \<and> (\<forall>r \<in> set (Resources d). Type r \<noteq> ''pulumi:pulumi:Stack''))"
  shows "code (get lib cl s id' fresh) = Some 200
         \<and> logged (get lib cl s id' fresh) = []
         \<and> (\<exists>fields. out (get lib cl s id' fresh) = [JSON fields]
               \<and> map_of fields ''id'' = Some id'
               \<and> map_of fields ''url'' = None)"
proof -
  obtain operation where op: "fst (get_operation lib cl s id' fresh) = Inr operation"
  proof (cases "fst (get_operation lib cl s id' fresh)")
    case (Inl e)
    then have "sent (get lib cl s id' fresh) = [stack_query lib s id']"
      by (simp add: get_run)
    with assms(5) show ?thesis by simp
  next
    case (Inr operation)
    with that show ?thesis .
  qed
  have "stackResource (Resources d) = None"
    if "\<forall>r \<in> set (Resources d). Type r \<noteq> ''pulumi:pulumi:Stack''"
    using that by (simp add: stackResource_None)
  with assms(3,4,6,7)
  have outs: "fst (get_outputs lib cl s id' (fresh\<lparr>sent := [stack_query lib s id']\<rparr>))
                = Inr Map.empty"
    by (auto simp add: get_outputs_run)
  have "websiteUrl Map.empty = []"
    by (simp add: websiteUrl_def)
  with op outs show ?thesis
    by (simp add: get_run Encode_url Encode_id)
qed

theorem unknown_version_or_no_root_omits_url_witness:
  \<open>get sample_lib (script [answer 200 ''{}'', answer 200 ''{"version":2,"deployment":{}}''])
      sample_server ''blog'' fresh
     = \<lparr>code = Some 200, out = [JSON [(''id'', ''blog''), (''status'', ''IDLE'')]], logged = [],
        sent = [stack_query sample_lib sample_server ''blog'',
                export_query sample_lib sample_server ''blog'']\<rparr>
   \<and> code (get sample_lib
              (script [answer 200 ''{}'',
                       answer 200 ''{"version":3,"deployment":{"resources":[]}}''])
              sample_server ''blog'' fresh) = Some 200
   \<and> (\<exists>fields.
        out (get sample_lib
               (script [answer 200 ''{}'',
                        answer 200 ''{"version":3,"deployment":{"resources":[]}}''])
               sample_server ''blog'' fresh) = [JSON fields]
        \<and> map_of fields ''url'' = None)\<close>
proof -
  let ?q1 = "stack_query sample_lib sample_server ''blog''"
  let ?q2 = "export_query sample_lib sample_server ''blog''"
  let ?old = \<open>script [answer 200 ''{}'', answer 200 ''{"version":2,"deployment":{}}'']\<close>
  let ?bare = \<open>script [answer 200 ''{}'',
                        answer 200 ''{"version":3,"deployment":{"resources":[]}}'']\<close>
  have old: "get sample_lib ?old sample_server ''blog'' fresh
     = \<lparr>code = Some 200, out = [JSON [(''id'', ''blog''), (''status'', ''IDLE'')]], logged = [],
        sent = [?q1, ?q2]\<rparr>"
    by (subst get_run)
       (simp add: get_operation_run get_outputs_run script_nth answer_def fresh_def
          sample_stack_bodies sample_exports DeploymentSchemaVersionCurrent_def
          Encode_def websiteUrl_def)
  have sent_bare: "sent (get sample_lib ?bare sample_server ''blog'' fresh) = [?q1, ?q2]"
    by (subst get_run)
       (simp add: get_operation_run get_outputs_run script_nth answer_def fresh_def
          sample_stack_bodies sample_exports sample_deployments
          DeploymentSchemaVersionCurrent_def)
  let ?export = \<open>''{"version":3,"deployment":{"resources":[]}}''\<close>
  have a: "?bare [] ?q1 = Inr \<lparr>StatusCode = 200, Body = ''{}'', RawBody = ''{}''\<rparr>"
    by (simp add: script_nth answer_def)
  have b: "?bare [?q1] ?q2 = Inr \<lparr>StatusCode = 200, Body = ?export, RawBody = ?export\<rparr>"
    by (simp add: script_nth answer_def)
  have c: \<open>json_UntypedDeployment sample_lib
             (RawBody \<lparr>StatusCode = 200, Body = ?export, RawBody = ?export\<rparr>)
           = Inr \<lparr>Version = 3, Deployment = ''{"resources":[]}''\<rparr>\<close>
    by (simp add: sample_exports)
  have d: \<open>Version \<lparr>Version = 3, Deployment = ''{"resources":[]}''\<rparr>
             \<noteq> DeploymentSchemaVersionCurrent
           \<or> (json_DeploymentV3 sample_lib
                 (Deployment \<lparr>Version = 3, Deployment = ''{"resources":[]}''\<rparr>)
                = Inr \<lparr>Resources = []\<rparr>
               \<and> (\<forall>r \<in> set (Resources \<lparr>Resources = []\<rparr>).
                     Type r \<noteq> ''pulumi:pulumi:Stack''))\<close>
    by (simp add: sample_deployments)
  have bare:
    "code (get sample_lib ?bare sample_server ''blog'' fresh) = Some 200
     \<and> logged (get sample_lib ?bare sample_server ''blog'' fresh) = []
     \<and> (\<exists>fields. out (get sample_lib ?bare sample_server ''blog'' fresh) = [JSON fields]
           \<and> map_of fields ''id'' = Some ''blog''
           \<and> map_of fields ''url'' = None)"
    using unknown_version_or_no_root_omits_url [OF a _ b _ sent_bare c d] by simp
  from old bare show ?thesis by auto
qed

text \<open>
  When the stack response is answered 200 with a body that does not decode, the export
  is never asked for and the request fails; this is why the statement above speaks of
  runs in which both calls are made.
\<close>

lemma undecodable_stack_response:
  assumes "cl [] (stack_query lib s id') = Inr x" and "StatusCode x = 200"
      and "json_getStackResponse lib (RawBody x) = Inl e"
  shows "get lib cl s id' fresh
           = failure [''Internal Server Error: getting stack: '' @ e] [stack_query lib s id']"
  using assms by (subst get_run) (simp add: get_operation_run fresh_def)

text \<open>
  C10. Take a Get whose first call succeeds and whose export is answered 200, decodes,
  has the current schema version and holds a root stack resource \<open>r\<close>. If the outputs of
  \<open>r\<close> have no "websiteUrl" key, or have one whose value is not a string, the response is
  a 200 with the id and no \<^verbatim>\<open>url\<close> member and nothing is logged: the type assertion
  yields the empty string and never fails the request.
\<close>

theorem missing_or_non_string_url_is_omitted:
  assumes "get_operation lib cl s id' fresh = (Inr operation, st1)"
      and "cl [stack_query lib s id'] (export_query lib s id') = Inr y" and "StatusCode y = 200"
      and "json_UntypedDeployment lib (RawBody y) = Inr ud"
      and "Version ud = DeploymentSchemaVersionCurrent"
      and "json_DeploymentV3 lib (Deployment ud) = Inr d"
      and "stackResource (Resources d) = Some r"
      and "Outputs r ''websiteUrl'' = None
           \<or> (\<exists>v. Outputs r ''websiteUrl'' = Some v \<and> (\<forall>u. v \<noteq> JString u))"
  shows "code (get lib cl s id' fresh) = Some 200
         \<and> logged (get lib cl s id' fresh) = []
         \<and> (\<exists>fields. out (get lib cl s id' fresh) = [JSON fields]
               \<and> map_of fields ''id'' = Some id'
               \<and> map_of fields ''url'' = None)"
proof -
  from assms(1) have op: "fst (get_operation lib cl s id' fresh) = Inr operation"
    by simp
  from assms(2-7)
  have outs: "fst (get_outputs lib cl s id' (fresh\<lparr>sent := [stack_query lib s id']\<rparr>))
                = Inr (Outputs r)"
    by (simp add: get_outputs_run)
  from assms(8) have "websiteUrl (Outputs r) = []"
  proof
    assume "Outputs r ''websiteUrl'' = None"
    then show ?thesis by (simp add: websiteUrl_def)
  next
    assume "\<exists>v. Outputs r ''websiteUrl'' = Some v \<and> (\<forall>u. v \<noteq> JString u)"
    then obtain v where "Outputs r ''websiteUrl'' = Some v" and "\<forall>u. v \<noteq> JString u"
      by blast
    then show ?thesis
      by (cases v) (simp_all add: websiteUrl_def)
  qed
  with op outs show ?thesis
    by (simp add: get_run Encode_url Encode_id)
qed

theorem missing_or_non_string_url_is_omitted_witness:
  \<open>get sample_lib
      (script [answer 200 ''{}'',
               answer 200 ''{"version":3,"deployment":{"resources":[{"type":"pulumi:pulumi:Stack","outputs":{"websiteUrl":true}}]}}''])
      sample_server ''blog'' fresh
     = \<lparr>code = Some 200, out = [JSON [(''id'', ''blog''), (''status'', ''IDLE'')]], logged = [],
        sent = [stack_query sample_lib sample_server ''blog'',
                export_query sample_lib sample_server ''blog'']\<rparr>\<close>
proof -
  let ?q1 = "stack_query sample_lib sample_server ''blog''"
  let ?q2 = "export_query sample_lib sample_server ''blog''"
  let ?deployment =
    \<open>''{"resources":[{"type":"pulumi:pulumi:Stack","outputs":{"websiteUrl":true}}]}''\<close>
  let ?export =
    \<open>''{"version":3,"deployment":{"resources":[{"type":"pulumi:pulumi:Stack","outputs":{"websiteUrl":true}}]}}''\<close>
  let ?cl = "script [answer 200 ''{}'', answer 200 ?export]"
  let ?r = "\<lparr>Type = ''pulumi:pulumi:Stack'', Outputs = [''websiteUrl'' \<mapsto> JBool True]\<rparr>"
  let ?fin = "get sample_lib ?cl sample_server ''blog'' fresh"
  have a: "get_operation sample_lib ?cl sample_server ''blog'' fresh
             = (Inr None, fresh\<lparr>sent := [?q1]\<rparr>)"
    by (simp add: get_operation_run script_nth answer_def fresh_def sample_stack_bodies)
  have b: "?cl [?q1] ?q2 = Inr \<lparr>StatusCode = 200, Body = ?export, RawBody = ?export\<rparr>"
    by (simp add: script_nth answer_def)
  have c: "json_UntypedDeployment sample_lib
             (RawBody \<lparr>StatusCode = 200, Body = ?export, RawBody = ?export\<rparr>)
           = Inr \<lparr>Version = 3, Deployment = ?deployment\<rparr>"
    by (simp add: sample_exports)
  have v: "Version \<lparr>Version = 3, Deployment = ?deployment\<rparr> = DeploymentSchemaVersionCurrent"
    by (simp add: DeploymentSchemaVersionCurrent_def)
  have d: "json_DeploymentV3 sample_lib (Deployment \<lparr>Version = 3, Deployment = ?deployment\<rparr>)
           = Inr \<lparr>Resources = [?r]\<rparr>"
    by (simp add: sample_deployments)
  have root: "stackResource (Resources \<lparr>Resources = [?r]\<rparr>) = Some ?r"
    by simp
  have other: "Outputs ?r ''websiteUrl'' = None
           \<or> (\<exists>v. Outputs ?r ''websiteUrl'' = Some v \<and> (\<forall>u. v \<noteq> JString u))"
    by simp
  have ok: "StatusCode \<lparr>StatusCode = 200, Body = ?export, RawBody = ?export\<rparr> = 200"
    by simp
  from missing_or_non_string_url_is_omitted [OF a b ok c v d root other]
  have omitted: "code ?fin = Some 200 \<and> logged ?fin = []
     \<and> (\<exists>fields. out ?fin = [JSON fields] \<and> map_of fields ''url'' = None)"
    by blast
  have "?fin = \<lparr>code = Some 200, out = [JSON [(''id'', ''blog''), (''status'', ''IDLE'')]],
                logged = [], sent = [?q1, ?q2]\<rparr>"
    by (subst get_run)
       (simp add: get_operation_run get_outputs_run script_nth answer_def fresh_def
          sample_stack_bodies sample_exports sample_deployments
          DeploymentSchemaVersionCurrent_def Encode_def websiteUrl_def)
  with omitted show ?thesis by simp
qed

subsection \<open>The default organization\<close>

text \<open>
  What the lookup of \<^verbatim>\<open>main\<close> does, case by case: it returns an error when the transport
  fails, the status is not 200 or the body does not decode; it returns the login of the
  first organization when the list has one; and it panics on an empty list, where the
  source indexes \<^verbatim>\<open>body.Organizations[0]\<close> without a length check.
\<close>

lemma defaultOrg_error:
  "(\<exists>e. defaultOrg lib cl tok = Returns (Inl e)) \<longleftrightarrow>
     (case cl [] (user_query tok) of
        Inl e \<Rightarrow> True
      | Inr resp \<Rightarrow>
          StatusCode resp \<noteq> 200
          \<or> (\<exists>e. json_getUserResponse lib (RawBody resp) = Inl e))"
  by (auto simp add: defaultOrg_def split: sum.splits list.splits)

lemma defaultOrg_first:
  assumes "cl [] (user_query tok) = Inr resp" and "StatusCode resp = 200"
      and "json_getUserResponse lib (RawBody resp) = Inr b"
      and "Organizations b = first # others"
  shows "defaultOrg lib cl tok = Returns (Inr (GitHubLogin first))"
  using assms by (simp add: defaultOrg_def)

lemma defaultOrg_empty:
  assumes "cl [] (user_query tok) = Inr resp" and "StatusCode resp = 200"
      and "json_getUserResponse lib (RawBody resp) = Inr b"
      and "Organizations b = []"
  shows "defaultOrg lib cl tok = Panics ''runtime error: index out of range [0] with length 0''"
  using assms by (simp add: defaultOrg_def)

lemma main_uses_first_organization:
  \<open>main sample_lib
      (script [answer 200 ''{"organizations":[{"githubLogin":"acme"},{"githubLogin":"zeta"}]}''])
      sample_flags
     = ListenAndServe '':8080'' (server_of sample_flags ''acme'')\<close>
  by (simp add: main_def defaultOrg_def script_nth answer_def sample_users sample_flags_def)

text \<open>
  C8. The claim holds that the resolution does not fail for any successful lookup
  response, the empty organization list included. With no organization configured and a
  lookup answered 200 with an empty list, \<^verbatim>\<open>main\<close> ends in a run-time panic: neither a
  default organization nor the fatal-error branch.
\<close>

theorem empty_organization_list_panics:
  \<open>main sample_lib (script [answer 200 ''{"organizations":[]}'']) sample_flags
     = Crash ''runtime error: index out of range [0] with length 0''\<close>
  by (simp add: main_def defaultOrg_def script_nth answer_def sample_users sample_flags_def)

end
